theory Spec2Isabelle
  imports Main
begin

section \<open>Protocol types\<close>

text \<open>
  The worker of \<^verbatim>\<open>pkg/noir/worker.go\<close> moves signalling messages between named queues
  and an engine connection object. Byte slices and Go strings are character lists; Go
  \<^verbatim>\<open>error\<close> values are opaque and only ever tested against \<^verbatim>\<open>nil\<close>, so an error is its
  message and \<^verbatim>\<open>nil\<close> is \<open>None\<close>.
\<close>

type_synonym bytes = string
type_synonym error = string

text \<open>
  \<^verbatim>\<open>webrtc.SDPType\<close>: the zero value (a description whose type was never set) and the
  four types of the WebRTC API. \<^verbatim>\<open>webrtc.SessionDescription\<close> keeps the type and the SDP text.
\<close>

datatype SDPType =
  SDPTypeUnknown | SDPTypeOffer | SDPTypePranswer | SDPTypeAnswer | SDPTypeRollback

record SessionDescription =
  Type :: SDPType
  SDP :: string

text \<open>\<^verbatim>\<open>Negotiation\<close> of \<^verbatim>\<open>message_types.go\<close>: the JSON shape of a Description payload.\<close>

record Negotiation =
  Desc :: SessionDescription

text \<open>\<^verbatim>\<open>webrtc.ICECandidateInit\<close> is only decoded and handed on; its JSON text stands for it.\<close>

type_synonym ICECandidateInit = string

text \<open>
  The request side of the protocol (package \<^verbatim>\<open>pb\<close>). A one-of field that is not set is
  \<open>None\<close>. Field names carry the message's name where two messages share a name.
\<close>

record JoinRequest =
  Sid :: string
  Description :: bytes

record Trickle =
  Init :: string
  Target :: int

datatype SignalRequest_Payload =
    SignalRequest_Join JoinRequest
  | SignalRequest_Description bytes
  | SignalRequest_Trickle Trickle
  | SignalRequest_Kill bool

record SignalRequest =
  req_Id :: string
  req_RequestId :: string
  req_Payload :: "SignalRequest_Payload option"

type_synonym RoomAdminRequest = string

datatype NoirRequest_Command =
    NoirRequest_Signal SignalRequest
  | NoirRequest_RoomAdmin RoomAdminRequest

record NoirRequest =
  Action :: string
  Command :: "NoirRequest_Command option"

text \<open>The value of \<^verbatim>\<open>pb.NoirRequest{}\<close>: no action, no command.\<close>

definition NoirRequest_zero :: NoirRequest where
  "NoirRequest_zero = \<lparr>Action = [], Command = None\<rparr>"

text \<open>The reply side: \<^verbatim>\<open>pb.NoirReply{Command: &pb.NoirReply_Signal{Signal: &pb.SignalReply{...}}}\<close>.\<close>

record JoinReply =
  reply_Description :: bytes

datatype SignalReply_Payload =
    SignalReply_Join JoinReply
  | SignalReply_Description bytes
  | SignalReply_Trickle Trickle

record SignalReply =
  rep_Id :: string
  rep_RequestId :: string
  rep_Payload :: SignalReply_Payload

datatype NoirReply = NoirReply_Signal SignalReply

section \<open>Collaborators and their observable calls\<close>

text \<open>
  The engine connection object (\<^verbatim>\<open>*sfu.Peer\<close>), a queue handle and the Manager's room data
  are opaque handles to the worker.
\<close>

datatype Peer = Peer nat
datatype Queue = Queue nat
type_synonym RoomData = string

datatype level = Debugf | Infof | Errorf

text \<open>
  Everything the worker does to the outside is recorded as an event, in program order:
  the join lock, the calls on the Manager, the assignments of the three hooks of the engine
  object, the calls on the engine object, the queue operations, the spawned goroutine and the
  log lines (level and format string).
\<close>

datatype event =
    Mu_Lock
  | Mu_Unlock
  | Mgr_CreateClient "SignalRequest option"
  | Mgr_GetQueue string
  | Mgr_CloseClient string
  | Mgr_GetRemoteRoomData string
  | Mgr_ValidateOffer RoomData string SessionDescription
  | Set_OnIceCandidate Peer
  | Set_OnICEConnectionStateChange Peer
  | Set_OnOffer Peer
  | Peer_Join Peer string SessionDescription
  | Peer_Answer Peer SessionDescription
  | Peer_SetRemoteDescription Peer SessionDescription
  | Peer_Trickle Peer ICECandidateInit int
  | Queue_BlockUntilNext Queue
  | Queue_EnqueueReply Queue NoirReply
  | Go_PeerChannel string string Peer
  | Log level string

text \<open>
  What the collaborators answer. None of them is defined in \<^verbatim>\<open>worker.go\<close>, so each is a
  parameter of the model, with the result shape of its Go signature: a pair of a value and
  an optional error where the worker goes on to use the value whatever the error is, a sum
  where the worker leaves on the error.
  \<^item> \<open>UnmarshalRequest message request\<close> is the error and the content of \<^verbatim>\<open>request\<close> after
    \<^verbatim>\<open>UnmarshalRequest(message, &request)\<close>.
  \<^item> \<open>EnqueueReply\<close> is the error of the helper that puts a reply on a queue.
\<close>

record env =
  KeyTopicToPeer :: "string \<Rightarrow> string"
  KeyTopicFromPeer :: "string \<Rightarrow> string"
  GetQueue :: "string \<Rightarrow> Queue"
  CreateClient :: "SignalRequest option \<Rightarrow> Peer option \<times> error option"
  GetRemoteRoomData :: "string \<Rightarrow> error + RoomData"
  ValidateOffer :: "RoomData \<Rightarrow> string \<Rightarrow> SessionDescription \<Rightarrow> error option"
  Join :: "Peer \<Rightarrow> string \<Rightarrow> SessionDescription \<Rightarrow> SessionDescription option \<times> error option"
  Answer :: "Peer \<Rightarrow> SessionDescription \<Rightarrow> SessionDescription option \<times> error option"
  UnmarshalRequest :: "bytes \<Rightarrow> NoirRequest \<Rightarrow> error option \<times> NoirRequest"
  Unmarshal_Negotiation :: "bytes \<Rightarrow> error + Negotiation"
  Unmarshal_ICECandidateInit :: "bytes \<Rightarrow> error + ICECandidateInit"
  Marshal_SessionDescription :: "SessionDescription option \<Rightarrow> bytes \<times> error option"
  Marshal_ICECandidateInit :: "ICECandidateInit option \<Rightarrow> bytes \<times> error option"
  EnqueueReply :: "Queue \<Rightarrow> NoirReply \<Rightarrow> error option"

text \<open>A log line that is written only when an error is present.\<close>

definition log_if :: "error option \<Rightarrow> level \<Rightarrow> string \<Rightarrow> event list" where
  "log_if err l fmt = (case err of None \<Rightarrow> [] | Some _ \<Rightarrow> [Log l fmt])"

section \<open>The join procedure\<close>

text \<open>
  The two closures that \<^verbatim>\<open>HandleJoin\<close> installs on the engine object. Both marshal their
  argument, log a marshalling error without leaving, and enqueue a reply that carries the
  connection id and no request id.
\<close>

definition OnIceCandidate :: "env \<Rightarrow> Queue \<Rightarrow> string \<Rightarrow> ICECandidateInit option \<Rightarrow> int \<Rightarrow> event list" where
  "OnIceCandidate e send pid candidate target =
     (let (bytes, err) = Marshal_ICECandidateInit e candidate;
          reply = NoirReply_Signal \<lparr>rep_Id = pid, rep_RequestId = [],
                    rep_Payload = SignalReply_Trickle \<lparr>Init = bytes, Target = target\<rparr>\<rparr>
      in log_if err Errorf ''OnIceCandidate error %s''
         @ [Queue_EnqueueReply send reply]
         @ log_if (EnqueueReply e send reply) Errorf ''OnIceCandidate send error %v '')"

definition OnOffer :: "env \<Rightarrow> Queue \<Rightarrow> string \<Rightarrow> SessionDescription option \<Rightarrow> event list" where
  "OnOffer e send pid description =
     (let (bytes, err) = Marshal_SessionDescription e description;
          reply = NoirReply_Signal \<lparr>rep_Id = pid, rep_RequestId = [],
                    rep_Payload = SignalReply_Description bytes\<rparr>
      in log_if err Errorf ''OnIceCandidate error %s''
         @ [Queue_EnqueueReply send reply]
         @ log_if (EnqueueReply e send reply) Errorf ''OnIceCandidate send error %v '')"

text \<open>
  \<^verbatim>\<open>HandleJoin\<close> returns \<^verbatim>\<open>nil\<close>, returns an error, or panics on a nil pointer: on
  \<^verbatim>\<open>signal.Id\<close> when the signal is nil, on the first hook assignment when the Manager
  returned neither a peer nor an error, on \<^verbatim>\<open>join.Description\<close> when the signal carries no
  Join payload (\<^verbatim>\<open>GetJoin\<close> is nil-safe, the field access is not). The deferred unlock runs
  on every way out.
\<close>

datatype result = Ok | Err error | Panic

definition GetJoin :: "SignalRequest \<Rightarrow> JoinRequest option" where
  "GetJoin signal =
     (case req_Payload signal of Some (SignalRequest_Join j) \<Rightarrow> Some j | _ \<Rightarrow> None)"

definition HandleJoin :: "env \<Rightarrow> SignalRequest option \<Rightarrow> result \<times> event list" where
  "HandleJoin e signal =
     (let (peer, err) = CreateClient e signal;
          t1 = [Mu_Lock, Mgr_CreateClient signal]
      in case err of
           Some x \<Rightarrow> (Err x, t1 @ [Mu_Unlock])
         | None \<Rightarrow>
            (case signal of
               None \<Rightarrow> (Panic, t1 @ [Mu_Unlock])
             | Some sig \<Rightarrow>
                (let join = GetJoin sig;
                     pid = req_Id sig;
                     recv = GetQueue e (KeyTopicToPeer e pid);
                     send = GetQueue e (KeyTopicFromPeer e pid);
                     t2 = t1 @ [Mgr_GetQueue (KeyTopicToPeer e pid),
                                Mgr_GetQueue (KeyTopicFromPeer e pid),
                                Log Infof ''listening on %s'']
                 in case peer of
                      None \<Rightarrow> (Panic, t2 @ [Mu_Unlock])
                    | Some p \<Rightarrow>
                       (let t3 = t2 @ [Set_OnIceCandidate p,
                                       Set_OnICEConnectionStateChange p,
                                       Set_OnOffer p]
                        in case join of
                             None \<Rightarrow> (Panic, t3 @ [Mu_Unlock])
                           | Some j \<Rightarrow>
                              (let offer = \<lparr>Type = SDPTypeOffer, SDP = Description j\<rparr>;
                                   (answer, _) = Join e p (Sid j) offer;
                                   (packed, _) = Marshal_SessionDescription e answer;
                                   reply = NoirReply_Signal
                                     \<lparr>rep_Id = pid, rep_RequestId = req_RequestId sig,
                                      rep_Payload = SignalReply_Join \<lparr>reply_Description = packed\<rparr>\<rparr>
                               in (Ok, t3 @ [Peer_Join p (Sid j) offer,
                                             Queue_EnqueueReply send reply,
                                             Go_PeerChannel pid (Sid j) p,
                                             Mu_Unlock]))))))"

section \<open>The Peer Channel\<close>

text \<open>
  One pass through the body of the \<^verbatim>\<open>for\<close> loop of \<^verbatim>\<open>PeerChannel\<close>, for the pair that
  \<^verbatim>\<open>recv.BlockUntilNext(0)\<close> returned. The pass ends the loop (\<^verbatim>\<open>return\<close>) or goes on to
  the next pop; it yields the events of the pass. Neither the pop error nor the error of
  \<^verbatim>\<open>UnmarshalRequest\<close> leaves the pass: each is logged, and the type switch runs on whatever
  \<^verbatim>\<open>request\<close> holds then.
\<close>

datatype flow = Continue | Return

definition PeerChannel_body ::
  "env \<Rightarrow> string \<Rightarrow> string \<Rightarrow> Peer \<Rightarrow> Queue \<Rightarrow> Queue \<Rightarrow> bytes \<times> error option
     \<Rightarrow> flow \<times> event list" where
  "PeerChannel_body e pid roomID peer recv send pop =
     (let (message, err) = pop;
          (uerr, request) = UnmarshalRequest e message NoirRequest_zero;
          t = [Queue_BlockUntilNext recv]
              @ log_if err Errorf ''getting message to peer %s''
              @ log_if uerr Errorf ''unmarshal message to peer %s''
      in case Command request of
           Some (NoirRequest_Signal signal) \<Rightarrow>
            (case req_Payload signal of
               Some (SignalRequest_Kill _) \<Rightarrow>
                 (Return, t @ [Log Debugf ''got KillRequest for peer %s'', Mgr_CloseClient pid])
             | Some (SignalRequest_Description d) \<Rightarrow>
                (case Unmarshal_Negotiation e d of
                   Inl _ \<Rightarrow> (Continue, t @ [Log Errorf ''unmarshal err: %s''])
                 | Inr desc \<Rightarrow>
                    if Type (Desc desc) = SDPTypeAnswer then
                      (Continue, t @ [Log Debugf ''got answer, setting description'',
                                      Peer_SetRemoteDescription peer (Desc desc)])
                    else if Type (Desc desc) = SDPTypeOffer then
                      (case GetRemoteRoomData e roomID of
                         Inl _ \<Rightarrow>
                           (Continue, t @ [Mgr_GetRemoteRoomData roomID,
                                           Log Errorf ''err getting room to validate offer: %s''])
                       | Inr roomData \<Rightarrow>
                          (case ValidateOffer e roomData pid (Desc desc) of
                             Some _ \<Rightarrow>
                               (Continue, t @ [Mgr_GetRemoteRoomData roomID,
                                               Mgr_ValidateOffer roomData pid (Desc desc),
                                               Log Infof ''rejected offer: %s''])
                           | None \<Rightarrow>
                              (let (answer, _) = Answer e peer (Desc desc);
                                   (bytes, _) = Marshal_SessionDescription e answer;
                                   reply = NoirReply_Signal
                                     \<lparr>rep_Id = pid, rep_RequestId = req_RequestId signal,
                                      rep_Payload = SignalReply_Description bytes\<rparr>
                               in (Continue,
                                   t @ [Mgr_GetRemoteRoomData roomID,
                                        Mgr_ValidateOffer roomData pid (Desc desc),
                                        Peer_Answer peer (Desc desc),
                                        Log Debugf ''got offer, sending reply %s'',
                                        Queue_EnqueueReply send reply]
                                     @ log_if (EnqueueReply e send reply) Errorf
                                         ''offer answer send error %v ''))))
                    else (Continue, t))
             | Some (SignalRequest_Trickle trickle) \<Rightarrow>
                (case Unmarshal_ICECandidateInit e (Init trickle) of
                   Inl _ \<Rightarrow> (Continue, t @ [Log Errorf ''unmarshal err: %s %s''])
                 | Inr candidate \<Rightarrow>
                     (Continue, t @ [Peer_Trickle peer candidate (Target trickle)]))
             | _ \<Rightarrow> (Continue, t @ [Log Errorf ''unknown signal for peer %s'']))
         | _ \<Rightarrow> (Continue, t @ [Log Errorf ''unknown command for peer %s'']))"

text \<open>
  The loop, over the pairs that the successive pops return. It is \<open>Closed\<close> once a pass
  has returned; when the pairs are used up it is \<open>Active\<close>, blocked in the next pop.
\<close>

datatype state = Active | Closed

fun PeerChannel_loop ::
  "env \<Rightarrow> string \<Rightarrow> string \<Rightarrow> Peer \<Rightarrow> Queue \<Rightarrow> Queue \<Rightarrow> (bytes \<times> error option) list
     \<Rightarrow> state \<times> event list" where
  "PeerChannel_loop e pid roomID peer recv send [] = (Active, [])"
| "PeerChannel_loop e pid roomID peer recv send (pop # pops) =
     (case PeerChannel_body e pid roomID peer recv send pop of
        (Return, t) \<Rightarrow> (Closed, t)
      | (Continue, t) \<Rightarrow>
          (let (s, t') = PeerChannel_loop e pid roomID peer recv send pops in (s, t @ t')))"

definition PeerChannel ::
  "env \<Rightarrow> string \<Rightarrow> string \<Rightarrow> Peer \<Rightarrow> (bytes \<times> error option) list \<Rightarrow> state \<times> event list" where
  "PeerChannel e pid roomID peer pops =
     (let recv = GetQueue e (KeyTopicToPeer e pid);
          send = GetQueue e (KeyTopicFromPeer e pid);
          (s, t) = PeerChannel_loop e pid roomID peer recv send pops
      in (s, [Mgr_GetQueue (KeyTopicToPeer e pid), Mgr_GetQueue (KeyTopicFromPeer e pid)] @ t))"

section \<open>Observations on a run\<close>

text \<open>The kinds of event that the properties count.\<close>

fun is_reply :: "event \<Rightarrow> bool" where
  "is_reply (Queue_EnqueueReply _ _) = True"
| "is_reply _ = False"

fun is_engine_call :: "event \<Rightarrow> bool" where
  "is_engine_call (Peer_Join _ _ _) = True"
| "is_engine_call (Peer_Answer _ _) = True"
| "is_engine_call (Peer_SetRemoteDescription _ _) = True"
| "is_engine_call (Peer_Trickle _ _ _) = True"
| "is_engine_call _ = False"

fun is_answer :: "event \<Rightarrow> bool" where
  "is_answer (Peer_Answer _ _) = True"
| "is_answer _ = False"

fun is_remote_description :: "event \<Rightarrow> bool" where
  "is_remote_description (Peer_SetRemoteDescription _ _) = True"
| "is_remote_description _ = False"

fun is_close :: "event \<Rightarrow> bool" where
  "is_close (Mgr_CloseClient _) = True"
| "is_close _ = False"

fun is_hook :: "event \<Rightarrow> bool" where
  "is_hook (Set_OnIceCandidate _) = True"
| "is_hook (Set_OnICEConnectionStateChange _) = True"
| "is_hook (Set_OnOffer _) = True"
| "is_hook _ = False"

fun is_spawn :: "event \<Rightarrow> bool" where
  "is_spawn (Go_PeerChannel _ _ _) = True"
| "is_spawn _ = False"

fun is_log :: "event \<Rightarrow> bool" where
  "is_log (Log _ _) = True"
| "is_log _ = False"

section \<open>A small world for concrete runs\<close>

text \<open>
  One environment in which the properties below are run on concrete messages: a Manager
  that accepts every signal with a connection id, knows one room and bans one offer, an
  engine that answers every non-empty offer, and a decoder that knows a handful of messages
  by name. The message \<open>''kill, cut short''\<close> stands for bytes that start with a complete
  Kill request and break off afterwards: the decoder reports an error and leaves what it had
  decoded in the request.
\<close>

definition demo_signal :: "SignalRequest_Payload option \<Rightarrow> SignalRequest" where
  "demo_signal payload = \<lparr>req_Id = ''peerA'', req_RequestId = ''r1'', req_Payload = payload\<rparr>"

definition demo_request :: "SignalRequest_Payload option \<Rightarrow> NoirRequest" where
  "demo_request payload =
     \<lparr>Action = ''request.signal'', Command = Some (NoirRequest_Signal (demo_signal payload))\<rparr>"

definition demo_env :: env where
  "demo_env =
     \<lparr>KeyTopicToPeer = (\<lambda>pid. ''to/'' @ pid),
      KeyTopicFromPeer = (\<lambda>pid. ''from/'' @ pid),
      GetQueue = (\<lambda>topic. Queue (length topic)),
      CreateClient = (\<lambda>signal.
        case signal of
          None \<Rightarrow> (None, Some ''no signal'')
        | Some sig \<Rightarrow>
            if req_Id sig = [] then (None, Some ''no connection id'') else (Some (Peer 1), None)),
      GetRemoteRoomData = (\<lambda>roomID.
        if roomID = ''room1'' then Inr ''room1 data'' else Inl ''no such room''),
      ValidateOffer = (\<lambda>roomData pid desc.
        if SDP desc = ''v=0 banned'' then Some ''not allowed'' else None),
      Join = (\<lambda>peer sid offer.
        if SDP offer = [] then (None, Some ''empty offer'')
        else (Some \<lparr>Type = SDPTypeAnswer, SDP = ''v=0 answer''\<rparr>, None)),
      Answer = (\<lambda>peer offer. (Some \<lparr>Type = SDPTypeAnswer, SDP = ''v=0 answer''\<rparr>, None)),
      UnmarshalRequest = (\<lambda>message request.
        if message = [] then (None, request)
        else if message = ''kill'' then (None, demo_request (Some (SignalRequest_Kill True)))
        else if message = ''kill, cut short'' then
          (Some ''unexpected EOF'', demo_request (Some (SignalRequest_Kill True)))
        else if message = ''offer'' then
          (None, demo_request (Some (SignalRequest_Description ''offer'')))
        else if message = ''banned offer'' then
          (None, demo_request (Some (SignalRequest_Description ''banned offer'')))
        else if message = ''answer'' then
          (None, demo_request (Some (SignalRequest_Description ''answer'')))
        else if message = ''pranswer'' then
          (None, demo_request (Some (SignalRequest_Description ''pranswer'')))
        else (Some ''cannot parse'', request)),
      Unmarshal_Negotiation = (\<lambda>d.
        if d = ''offer'' then Inr \<lparr>Desc = \<lparr>Type = SDPTypeOffer, SDP = ''v=0 offer''\<rparr>\<rparr>
        else if d = ''banned offer'' then Inr \<lparr>Desc = \<lparr>Type = SDPTypeOffer, SDP = ''v=0 banned''\<rparr>\<rparr>
        else if d = ''answer'' then Inr \<lparr>Desc = \<lparr>Type = SDPTypeAnswer, SDP = ''v=0 answer''\<rparr>\<rparr>
        else if d = ''pranswer'' then Inr \<lparr>Desc = \<lparr>Type = SDPTypePranswer, SDP = ''v=0 pranswer''\<rparr>\<rparr>
        else Inl ''invalid character''),
      Unmarshal_ICECandidateInit = (\<lambda>init.
        if init = [] then Inl ''unexpected end of JSON input'' else Inr init),
      Marshal_SessionDescription = (\<lambda>d.
        case d of None \<Rightarrow> (''null'', None) | Some x \<Rightarrow> (SDP x, None)),
      Marshal_ICECandidateInit = (\<lambda>c.
        case c of None \<Rightarrow> (''null'', None) | Some x \<Rightarrow> (x, None)),
      EnqueueReply = (\<lambda>queue reply. None)\<rparr>"

section \<open>Counting over log lines\<close>

lemma filter_log_if [simp]:
  "filter is_reply (log_if err l fmt) = []"
  "filter is_engine_call (log_if err l fmt) = []"
  "filter is_answer (log_if err l fmt) = []"
  "filter is_remote_description (log_if err l fmt) = []"
  "filter is_close (log_if err l fmt) = []"
  by (simp_all add: log_if_def split: option.splits)

text \<open>What the small world answers, as rewrite rules for concrete runs.\<close>

lemma demo_unmarshal:
  "UnmarshalRequest demo_env [] NoirRequest_zero = (None, NoirRequest_zero)"
  "UnmarshalRequest demo_env ''kill'' NoirRequest_zero
     = (None, demo_request (Some (SignalRequest_Kill True)))"
  "UnmarshalRequest demo_env ''kill, cut short'' NoirRequest_zero
     = (Some ''unexpected EOF'', demo_request (Some (SignalRequest_Kill True)))"
  "UnmarshalRequest demo_env ''offer'' NoirRequest_zero
     = (None, demo_request (Some (SignalRequest_Description ''offer'')))"
  "UnmarshalRequest demo_env ''banned offer'' NoirRequest_zero
     = (None, demo_request (Some (SignalRequest_Description ''banned offer'')))"
  "UnmarshalRequest demo_env ''answer'' NoirRequest_zero
     = (None, demo_request (Some (SignalRequest_Description ''answer'')))"
  "UnmarshalRequest demo_env ''pranswer'' NoirRequest_zero
     = (None, demo_request (Some (SignalRequest_Description ''pranswer'')))"
  by (simp_all add: demo_env_def)

lemma demo_request_simps:
  "Command (demo_request payload) = Some (NoirRequest_Signal (demo_signal payload))"
  "req_Payload (demo_signal payload) = payload"
  "req_RequestId (demo_signal payload) = ''r1''"
  "req_Id (demo_signal payload) = ''peerA''"
  by (simp_all add: demo_request_def demo_signal_def)

lemma demo_negotiation:
  "Unmarshal_Negotiation demo_env ''offer'' = Inr \<lparr>Desc = \<lparr>Type = SDPTypeOffer, SDP = ''v=0 offer''\<rparr>\<rparr>"
  "Unmarshal_Negotiation demo_env ''banned offer''
     = Inr \<lparr>Desc = \<lparr>Type = SDPTypeOffer, SDP = ''v=0 banned''\<rparr>\<rparr>"
  "Unmarshal_Negotiation demo_env ''answer'' = Inr \<lparr>Desc = \<lparr>Type = SDPTypeAnswer, SDP = ''v=0 answer''\<rparr>\<rparr>"
  "Unmarshal_Negotiation demo_env ''pranswer''
     = Inr \<lparr>Desc = \<lparr>Type = SDPTypePranswer, SDP = ''v=0 pranswer''\<rparr>\<rparr>"
  by (simp_all add: demo_env_def)

lemma demo_manager:
  "GetRemoteRoomData demo_env ''room1'' = Inr ''room1 data''"
  "GetRemoteRoomData demo_env ''room9'' = Inl ''no such room''"
  "ValidateOffer demo_env ''room1 data'' ''peerA'' \<lparr>Type = SDPTypeOffer, SDP = ''v=0 offer''\<rparr> = None"
  "ValidateOffer demo_env ''room1 data'' ''peerA'' \<lparr>Type = SDPTypeOffer, SDP = ''v=0 banned''\<rparr>
     = Some ''not allowed''"
  "Answer demo_env p d
     = (Some \<lparr>Type = SDPTypeAnswer, SDP = ''v=0 answer''\<rparr>, None)"
  "Marshal_SessionDescription demo_env (Some \<lparr>Type = SDPTypeAnswer, SDP = ''v=0 answer''\<rparr>)
     = (''v=0 answer'', None)"
  "EnqueueReply demo_env q r = None"
  by (simp_all add: demo_env_def)

lemmas demo_simps = demo_unmarshal demo_request_simps demo_negotiation demo_manager

section \<open>Properties of the join procedure\<close>

text \<open>
  The whole run of \<^verbatim>\<open>HandleJoin\<close> on a signal that carries a Join payload and for which the
  Manager returns a peer and no error.
\<close>

lemma HandleJoin_joined:
  assumes "CreateClient e (Some sig) = (Some p, None)"
    and "req_Payload sig = Some (SignalRequest_Join j)"
  shows "HandleJoin e (Some sig) =
    (Ok, [Mu_Lock, Mgr_CreateClient (Some sig),
          Mgr_GetQueue (KeyTopicToPeer e (req_Id sig)),
          Mgr_GetQueue (KeyTopicFromPeer e (req_Id sig)),
          Log Infof ''listening on %s'',
          Set_OnIceCandidate p, Set_OnICEConnectionStateChange p, Set_OnOffer p,
          Peer_Join p (Sid j) \<lparr>Type = SDPTypeOffer, SDP = Description j\<rparr>,
          Queue_EnqueueReply (GetQueue e (KeyTopicFromPeer e (req_Id sig)))
            (NoirReply_Signal
               \<lparr>rep_Id = req_Id sig, rep_RequestId = req_RequestId sig,
                rep_Payload = SignalReply_Join
                  \<lparr>reply_Description = fst (Marshal_SessionDescription e
                     (fst (Join e p (Sid j) \<lparr>Type = SDPTypeOffer, SDP = Description j\<rparr>)))\<rparr>\<rparr>),
          Go_PeerChannel (req_Id sig) (Sid j) p,
          Mu_Unlock])"
  using assms by (simp add: HandleJoin_def GetJoin_def Let_def split: prod.splits)

text \<open>A run in which the engine's Join is called is such a run, on that peer.\<close>

lemma HandleJoin_negotiates:
  assumes "Peer_Join p sid offer \<in> set (snd (HandleJoin e signal))"
  shows "\<exists>sig j. signal = Some sig \<and> CreateClient e (Some sig) = (Some p, None)
           \<and> req_Payload sig = Some (SignalRequest_Join j)"
  using assms
  by (auto simp: HandleJoin_def GetJoin_def Let_def
      split: prod.splits option.splits SignalRequest_Payload.splits)

text \<open>
  C1. When the Manager creates the engine connection object for a join request, the join
  procedure returns without error and enqueues exactly one reply: a Join-answer reply on the
  queue of the connection's outbound topic, whose request id is the request's and whose
  connection id is the request's connection id. Its description is the marshalled answer of
  the engine's Join.
\<close>

theorem HandleJoin_one_join_answer:
  assumes "CreateClient e (Some sig) = (Some p, None)"
    and "req_Payload sig = Some (SignalRequest_Join j)"
  shows "fst (HandleJoin e (Some sig)) = Ok \<and>
    filter is_reply (snd (HandleJoin e (Some sig))) =
      [Queue_EnqueueReply (GetQueue e (KeyTopicFromPeer e (req_Id sig)))
         (NoirReply_Signal
            \<lparr>rep_Id = req_Id sig, rep_RequestId = req_RequestId sig,
             rep_Payload = SignalReply_Join
               \<lparr>reply_Description = fst (Marshal_SessionDescription e
                  (fst (Join e p (Sid j) \<lparr>Type = SDPTypeOffer, SDP = Description j\<rparr>)))\<rparr>\<rparr>)]"
  by (simp add: HandleJoin_joined [OF assms])

theorem HandleJoin_one_join_answer_witness:
  "CreateClient demo_env (Some (demo_signal (Some (SignalRequest_Join \<lparr>Sid = ''room1'', Description = ''v=0 offer''\<rparr>))))
     = (Some (Peer 1), None) \<and>
   fst (HandleJoin demo_env (Some (demo_signal (Some (SignalRequest_Join \<lparr>Sid = ''room1'', Description = ''v=0 offer''\<rparr>))))) = Ok \<and>
   filter is_reply (snd (HandleJoin demo_env
      (Some (demo_signal (Some (SignalRequest_Join \<lparr>Sid = ''room1'', Description = ''v=0 offer''\<rparr>)))))) =
     [Queue_EnqueueReply (Queue 10)
        (NoirReply_Signal \<lparr>rep_Id = ''peerA'', rep_RequestId = ''r1'',
           rep_Payload = SignalReply_Join \<lparr>reply_Description = ''v=0 answer''\<rparr>\<rparr>)]"
proof -
  let ?j = "\<lparr>Sid = ''room1'', Description = ''v=0 offer''\<rparr>"
  let ?sig = "demo_signal (Some (SignalRequest_Join ?j))"
  have c: "CreateClient demo_env (Some ?sig) = (Some (Peer 1), None)"
    by (simp add: demo_env_def demo_signal_def)
  have p: "req_Payload ?sig = Some (SignalRequest_Join ?j)"
    by (simp add: demo_signal_def)
  show ?thesis
    using c HandleJoin_one_join_answer [OF c p]
    by (simp add: demo_env_def demo_signal_def)
qed

text \<open>
  C4. When the Manager's connection creation returns an error, the join procedure takes the
  lock, calls the Manager, releases the lock and returns that error: it enqueues no reply,
  assigns no hook and spawns no Peer Channel.
\<close>

theorem HandleJoin_create_error_aborts:
  assumes "snd (CreateClient e signal) = Some x"
  shows "HandleJoin e signal = (Err x, [Mu_Lock, Mgr_CreateClient signal, Mu_Unlock]) \<and>
    filter is_reply (snd (HandleJoin e signal)) = [] \<and>
    filter is_hook (snd (HandleJoin e signal)) = [] \<and>
    filter is_spawn (snd (HandleJoin e signal)) = []"
  using assms by (cases "CreateClient e signal") (simp add: HandleJoin_def)

theorem HandleJoin_create_error_aborts_witness:
  "snd (CreateClient demo_env None) = Some ''no signal'' \<and>
   HandleJoin demo_env None = (Err ''no signal'', [Mu_Lock, Mgr_CreateClient None, Mu_Unlock]) \<and>
   filter is_reply (snd (HandleJoin demo_env None)) = []"
proof -
  have c: "snd (CreateClient demo_env None) = Some ''no signal''"
    by (simp add: demo_env_def)
  show ?thesis
    using c HandleJoin_create_error_aborts [OF c] by simp
qed

text \<open>
  C7. In every run of the join procedure that calls the engine's Join, the three hooks of
  that engine object (ICE candidate produced, ICE connection state changed, offer produced)
  have been assigned before the call: all three assignments lie in the part of the run that
  precedes it.
\<close>

theorem HandleJoin_hooks_before_join:
  assumes "snd (HandleJoin e signal) = pre @ Peer_Join p sid offer # post"
  shows "Set_OnIceCandidate p \<in> set pre \<and> Set_OnICEConnectionStateChange p \<in> set pre \<and>
    Set_OnOffer p \<in> set pre"
proof -
  have "Peer_Join p sid offer \<in> set (snd (HandleJoin e signal))"
    by (simp add: assms)
  then obtain sig j where s: "signal = Some sig"
    and c: "CreateClient e (Some sig) = (Some p, None)"
    and j: "req_Payload sig = Some (SignalRequest_Join j)"
    using HandleJoin_negotiates by blast
  from assms show ?thesis
    unfolding s HandleJoin_joined [OF c j]
    by (auto simp: Cons_eq_append_conv)
qed

theorem HandleJoin_hooks_before_join_witness:
  "snd (HandleJoin demo_env
      (Some (demo_signal (Some (SignalRequest_Join \<lparr>Sid = ''room1'', Description = ''v=0 offer''\<rparr>))))) =
     [Mu_Lock,
      Mgr_CreateClient
        (Some (demo_signal (Some (SignalRequest_Join \<lparr>Sid = ''room1'', Description = ''v=0 offer''\<rparr>)))),
      Mgr_GetQueue ''to/peerA'', Mgr_GetQueue ''from/peerA'', Log Infof ''listening on %s'',
      Set_OnIceCandidate (Peer 1), Set_OnICEConnectionStateChange (Peer 1), Set_OnOffer (Peer 1)]
     @ Peer_Join (Peer 1) ''room1'' \<lparr>Type = SDPTypeOffer, SDP = ''v=0 offer''\<rparr>
     # [Queue_EnqueueReply (Queue 10)
          (NoirReply_Signal \<lparr>rep_Id = ''peerA'', rep_RequestId = ''r1'',
             rep_Payload = SignalReply_Join \<lparr>reply_Description = ''v=0 answer''\<rparr>\<rparr>),
        Go_PeerChannel ''peerA'' ''room1'' (Peer 1), Mu_Unlock] \<and>
   Set_OnIceCandidate (Peer 1) \<in> set
     [Mu_Lock,
      Mgr_CreateClient
        (Some (demo_signal (Some (SignalRequest_Join \<lparr>Sid = ''room1'', Description = ''v=0 offer''\<rparr>)))),
      Mgr_GetQueue ''to/peerA'', Mgr_GetQueue ''from/peerA'', Log Infof ''listening on %s'',
      Set_OnIceCandidate (Peer 1), Set_OnICEConnectionStateChange (Peer 1), Set_OnOffer (Peer 1)]"
proof -
  let ?j = "\<lparr>Sid = ''room1'', Description = ''v=0 offer''\<rparr>"
  let ?sig = "demo_signal (Some (SignalRequest_Join ?j))"
  let ?pre = "[Mu_Lock, Mgr_CreateClient (Some ?sig),
      Mgr_GetQueue ''to/peerA'', Mgr_GetQueue ''from/peerA'', Log Infof ''listening on %s'',
      Set_OnIceCandidate (Peer 1), Set_OnICEConnectionStateChange (Peer 1), Set_OnOffer (Peer 1)]"
  let ?post = "[Queue_EnqueueReply (Queue 10)
          (NoirReply_Signal \<lparr>rep_Id = ''peerA'', rep_RequestId = ''r1'',
             rep_Payload = SignalReply_Join \<lparr>reply_Description = ''v=0 answer''\<rparr>\<rparr>),
        Go_PeerChannel ''peerA'' ''room1'' (Peer 1), Mu_Unlock]"
  have run: "snd (HandleJoin demo_env (Some ?sig)) =
      ?pre @ Peer_Join (Peer 1) ''room1'' \<lparr>Type = SDPTypeOffer, SDP = ''v=0 offer''\<rparr> # ?post"
    by (simp add: HandleJoin_def GetJoin_def Let_def demo_env_def demo_signal_def)
  from HandleJoin_hooks_before_join [OF run] run show ?thesis
    by blast
qed

text \<open>
  C8. The error of the engine's Join is discarded. When Join returns an error, the join
  procedure still returns \<^verbatim>\<open>nil\<close>, still enqueues the Join-answer reply with the request's
  id (its description is whatever answer value came back, marshalled) and still spawns the
  Peer Channel; the whole run equals the run in a world whose Join returns the same answers
  and never an error.
\<close>

theorem HandleJoin_discards_join_error:
  assumes "CreateClient e (Some sig) = (Some p, None)"
    and "req_Payload sig = Some (SignalRequest_Join j)"
    and "Join e p (Sid j) \<lparr>Type = SDPTypeOffer, SDP = Description j\<rparr> = (answer, Some x)"
  shows "fst (HandleJoin e (Some sig)) = Ok \<and>
    Queue_EnqueueReply (GetQueue e (KeyTopicFromPeer e (req_Id sig)))
      (NoirReply_Signal
         \<lparr>rep_Id = req_Id sig, rep_RequestId = req_RequestId sig,
          rep_Payload = SignalReply_Join
            \<lparr>reply_Description = fst (Marshal_SessionDescription e answer)\<rparr>\<rparr>)
      \<in> set (snd (HandleJoin e (Some sig))) \<and>
    Go_PeerChannel (req_Id sig) (Sid j) p \<in> set (snd (HandleJoin e (Some sig))) \<and>
    HandleJoin (e\<lparr>Join := \<lambda>q s d. (fst (Join e q s d), None)\<rparr>) (Some sig)
      = HandleJoin e (Some sig)"
proof -
  let ?e = "e\<lparr>Join := \<lambda>q s d. (fst (Join e q s d), None)\<rparr>"
  have c: "CreateClient ?e (Some sig) = (Some p, None)"
    using assms(1) by simp
  show ?thesis
    by (simp add: HandleJoin_joined [OF assms(1,2)] HandleJoin_joined [OF c assms(2)] assms(3))
qed

theorem HandleJoin_discards_join_error_witness:
  "Join demo_env (Peer 1) ''room1'' \<lparr>Type = SDPTypeOffer, SDP = []\<rparr> = (None, Some ''empty offer'') \<and>
   fst (HandleJoin demo_env
      (Some (demo_signal (Some (SignalRequest_Join \<lparr>Sid = ''room1'', Description = []\<rparr>))))) = Ok \<and>
   Queue_EnqueueReply (Queue 10)
      (NoirReply_Signal \<lparr>rep_Id = ''peerA'', rep_RequestId = ''r1'',
         rep_Payload = SignalReply_Join \<lparr>reply_Description = ''null''\<rparr>\<rparr>)
     \<in> set (snd (HandleJoin demo_env
      (Some (demo_signal (Some (SignalRequest_Join \<lparr>Sid = ''room1'', Description = []\<rparr>)))))) \<and>
   Go_PeerChannel ''peerA'' ''room1'' (Peer 1)
     \<in> set (snd (HandleJoin demo_env
      (Some (demo_signal (Some (SignalRequest_Join \<lparr>Sid = ''room1'', Description = []\<rparr>))))))"
proof -
  let ?j = "\<lparr>Sid = ''room1'', Description = []\<rparr>"
  let ?sig = "demo_signal (Some (SignalRequest_Join ?j))"
  have c: "CreateClient demo_env (Some ?sig) = (Some (Peer 1), None)"
    by (simp add: demo_env_def demo_signal_def)
  have p: "req_Payload ?sig = Some (SignalRequest_Join ?j)"
    by (simp add: demo_signal_def)
  have j: "Join demo_env (Peer 1) (Sid ?j) \<lparr>Type = SDPTypeOffer, SDP = Description ?j\<rparr>
      = (None, Some ''empty offer'')"
    by (simp add: demo_env_def)
  have m: "fst (Marshal_SessionDescription demo_env None) = ''null''"
    "GetQueue demo_env (KeyTopicFromPeer demo_env ''peerA'') = Queue 10"
    by (simp_all add: demo_env_def)
  show ?thesis
    using j m HandleJoin_discards_join_error [OF c p j]
    by (simp add: demo_signal_def)
qed

section \<open>Properties of the Peer Channel\<close>

text \<open>
  A pass that returns closes the loop: whatever was queued behind the message of that pass
  is never popped.
\<close>

lemma PeerChannel_loop_stops:
  assumes "fst (PeerChannel_body e pid roomID peer recv send pop) = Return"
  shows "PeerChannel_loop e pid roomID peer recv send (before @ pop # rest)
      = PeerChannel_loop e pid roomID peer recv send (before @ [pop]) \<and>
    fst (PeerChannel_loop e pid roomID peer recv send (before @ [pop])) = Closed"
proof (induction before)
  case Nil
  from assms show ?case
    by (cases "PeerChannel_body e pid roomID peer recv send pop") simp
next
  case (Cons b before)
  then show ?case
    by (cases "PeerChannel_body e pid roomID peer recv send b")
       (auto split: flow.splits prod.splits)
qed

text \<open>
  C2. A pass of the Peer Channel on a Description payload whose decoded type is offer. When
  the room data cannot be fetched, or the Manager rejects the offer, the pass enqueues no
  reply, calls the engine's Answer not at all, and the loop goes on. When the Manager accepts
  the offer, the pass calls Answer exactly once, on the decoded description, and enqueues
  exactly one reply: a Description reply on the outbound queue with the request id of the
  request that carried the offer.
\<close>

theorem PeerChannel_offer:
  assumes "Command (snd (UnmarshalRequest e message NoirRequest_zero)) = Some (NoirRequest_Signal signal)"
    and "req_Payload signal = Some (SignalRequest_Description d)"
    and "Unmarshal_Negotiation e d = Inr desc"
    and "Type (Desc desc) = SDPTypeOffer"
    and "PeerChannel_body e pid roomID peer recv send (message, err) = (f, t)"
  shows "(\<forall>x. GetRemoteRoomData e roomID = Inl x \<longrightarrow>
            f = Continue \<and> filter is_reply t = [] \<and> filter is_answer t = []) \<and>
         (\<forall>roomData x. GetRemoteRoomData e roomID = Inr roomData \<and>
              ValidateOffer e roomData pid (Desc desc) = Some x \<longrightarrow>
            f = Continue \<and> filter is_reply t = [] \<and> filter is_answer t = []) \<and>
         (\<forall>roomData. GetRemoteRoomData e roomID = Inr roomData \<and>
              ValidateOffer e roomData pid (Desc desc) = None \<longrightarrow>
            f = Continue \<and>
            filter is_answer t = [Peer_Answer peer (Desc desc)] \<and>
            filter is_reply t =
              [Queue_EnqueueReply send
                 (NoirReply_Signal
                    \<lparr>rep_Id = pid, rep_RequestId = req_RequestId signal,
                     rep_Payload = SignalReply_Description
                       (fst (Marshal_SessionDescription e (fst (Answer e peer (Desc desc)))))\<rparr>)])"
  using assms
  by (cases "UnmarshalRequest e message NoirRequest_zero")
     (auto simp: PeerChannel_body_def Let_def split: prod.splits)

theorem PeerChannel_offer_witness:
  "GetRemoteRoomData demo_env ''room1'' = Inr ''room1 data'' \<and>
   ValidateOffer demo_env ''room1 data'' ''peerA'' \<lparr>Type = SDPTypeOffer, SDP = ''v=0 offer''\<rparr> = None \<and>
   filter is_answer
     (snd (PeerChannel_body demo_env ''peerA'' ''room1'' (Peer 1) (Queue 8) (Queue 10) (''offer'', None)))
     = [Peer_Answer (Peer 1) \<lparr>Type = SDPTypeOffer, SDP = ''v=0 offer''\<rparr>] \<and>
   filter is_reply
     (snd (PeerChannel_body demo_env ''peerA'' ''room1'' (Peer 1) (Queue 8) (Queue 10) (''offer'', None)))
     = [Queue_EnqueueReply (Queue 10)
          (NoirReply_Signal \<lparr>rep_Id = ''peerA'', rep_RequestId = ''r1'',
             rep_Payload = SignalReply_Description ''v=0 answer''\<rparr>)] \<and>
   GetRemoteRoomData demo_env ''room9'' = Inl ''no such room'' \<and>
   fst (PeerChannel_body demo_env ''peerA'' ''room9'' (Peer 1) (Queue 8) (Queue 10) (''offer'', None))
     = Continue \<and>
   filter is_answer
     (snd (PeerChannel_body demo_env ''peerA'' ''room9'' (Peer 1) (Queue 8) (Queue 10) (''offer'', None)))
     = [] \<and>
   filter is_reply
     (snd (PeerChannel_body demo_env ''peerA'' ''room9'' (Peer 1) (Queue 8) (Queue 10) (''offer'', None)))
     = [] \<and>
   ValidateOffer demo_env ''room1 data'' ''peerA'' \<lparr>Type = SDPTypeOffer, SDP = ''v=0 banned''\<rparr>
     = Some ''not allowed'' \<and>
   filter is_answer
     (snd (PeerChannel_body demo_env ''peerA'' ''room1'' (Peer 1) (Queue 8) (Queue 10)
        (''banned offer'', None)))
     = [] \<and>
   filter is_reply
     (snd (PeerChannel_body demo_env ''peerA'' ''room1'' (Peer 1) (Queue 8) (Queue 10)
        (''banned offer'', None)))
     = []"
proof -
  let ?offer = "\<lparr>Desc = \<lparr>Type = SDPTypeOffer, SDP = ''v=0 offer''\<rparr>\<rparr>"
  let ?banned = "\<lparr>Desc = \<lparr>Type = SDPTypeOffer, SDP = ''v=0 banned''\<rparr>\<rparr>"
  have u: "Command (snd (UnmarshalRequest demo_env ''offer'' NoirRequest_zero))
      = Some (NoirRequest_Signal (demo_signal (Some (SignalRequest_Description ''offer''))))"
    and u': "Command (snd (UnmarshalRequest demo_env ''banned offer'' NoirRequest_zero))
      = Some (NoirRequest_Signal (demo_signal (Some (SignalRequest_Description ''banned offer''))))"
    by (simp_all add: demo_simps)
  have p: "req_Payload (demo_signal (Some (SignalRequest_Description ''offer'')))
      = Some (SignalRequest_Description ''offer'')"
    and p': "req_Payload (demo_signal (Some (SignalRequest_Description ''banned offer'')))
      = Some (SignalRequest_Description ''banned offer'')"
    by (simp_all add: demo_simps)
  have n: "Unmarshal_Negotiation demo_env ''offer'' = Inr ?offer"
    and n': "Unmarshal_Negotiation demo_env ''banned offer'' = Inr ?banned"
    by (simp_all add: demo_simps)
  have ty: "Type (Desc ?offer) = SDPTypeOffer" and ty': "Type (Desc ?banned) = SDPTypeOffer"
    by simp_all
  note accepted = PeerChannel_offer [OF u p n ty prod.collapse [symmetric],
      where pid = "''peerA''" and roomID = "''room1''" and peer = "Peer 1" and recv = "Queue 8"
        and send = "Queue 10" and err = None]
  note no_room = PeerChannel_offer [OF u p n ty prod.collapse [symmetric],
      where pid = "''peerA''" and roomID = "''room9''" and peer = "Peer 1" and recv = "Queue 8"
        and send = "Queue 10" and err = None]
  note rejected = PeerChannel_offer [OF u' p' n' ty' prod.collapse [symmetric],
      where pid = "''peerA''" and roomID = "''room1''" and peer = "Peer 1" and recv = "Queue 8"
        and send = "Queue 10" and err = None]
  show ?thesis
    using accepted no_room rejected by (simp add: demo_simps)
qed

text \<open>
  C3. A pass of the Peer Channel on a Kill payload calls the Manager's \<^verbatim>\<open>CloseClient\<close>
  exactly once, with the connection id of this Peer Channel, enqueues no reply and returns.
  The loop is closed by it: its run on a queue that holds the Kill is the run up to and
  including the Kill's pass, so nothing queued behind the Kill is popped and no reply follows.
\<close>

theorem PeerChannel_kill:
  assumes "Command (snd (UnmarshalRequest e message NoirRequest_zero)) = Some (NoirRequest_Signal signal)"
    and "req_Payload signal = Some (SignalRequest_Kill k)"
    and "PeerChannel_body e pid roomID peer recv send (message, err) = (f, t)"
  shows "f = Return \<and> filter is_close t = [Mgr_CloseClient pid] \<and> filter is_reply t = [] \<and>
    PeerChannel_loop e pid roomID peer recv send ((message, err) # rest) = (Closed, t) \<and>
    PeerChannel_loop e pid roomID peer recv send (before @ (message, err) # rest)
      = PeerChannel_loop e pid roomID peer recv send (before @ [(message, err)]) \<and>
    fst (PeerChannel_loop e pid roomID peer recv send (before @ [(message, err)])) = Closed"
proof -
  from assms have r: "f = Return \<and> filter is_close t = [Mgr_CloseClient pid] \<and> filter is_reply t = []"
    by (cases "UnmarshalRequest e message NoirRequest_zero")
       (auto simp: PeerChannel_body_def Let_def)
  with assms(3) have "fst (PeerChannel_body e pid roomID peer recv send (message, err)) = Return"
    by simp
  from PeerChannel_loop_stops [OF this] r assms(3) show ?thesis
    by simp
qed

theorem PeerChannel_kill_witness:
  "PeerChannel_body demo_env ''peerA'' ''room1'' (Peer 1) (Queue 8) (Queue 10) (''kill'', None) =
     (Return, [Queue_BlockUntilNext (Queue 8), Log Debugf ''got KillRequest for peer %s'',
               Mgr_CloseClient ''peerA'']) \<and>
   filter is_close [Queue_BlockUntilNext (Queue 8), Log Debugf ''got KillRequest for peer %s'',
               Mgr_CloseClient ''peerA''] = [Mgr_CloseClient ''peerA''] \<and>
   PeerChannel_loop demo_env ''peerA'' ''room1'' (Peer 1) (Queue 8) (Queue 10)
       [(''kill'', None), (''offer'', None)] =
     (Closed, [Queue_BlockUntilNext (Queue 8), Log Debugf ''got KillRequest for peer %s'',
               Mgr_CloseClient ''peerA''])"
proof -
  have u: "Command (snd (UnmarshalRequest demo_env ''kill'' NoirRequest_zero))
      = Some (NoirRequest_Signal (demo_signal (Some (SignalRequest_Kill True))))"
    by (simp add: demo_simps)
  have p: "req_Payload (demo_signal (Some (SignalRequest_Kill True))) = Some (SignalRequest_Kill True)"
    by (simp add: demo_simps)
  have b: "PeerChannel_body demo_env ''peerA'' ''room1'' (Peer 1) (Queue 8) (Queue 10) (''kill'', None) =
     (Return, [Queue_BlockUntilNext (Queue 8), Log Debugf ''got KillRequest for peer %s'',
               Mgr_CloseClient ''peerA''])"
    by (simp add: PeerChannel_body_def demo_simps log_if_def)
  show ?thesis
    using b PeerChannel_kill [OF u p b, where rest = "[(''offer'', None)]" and before = "[]"]
    by simp
qed

text \<open>
  C6. A pass of the Peer Channel on a Description payload whose decoded type is answer
  applies the decoded description as the remote description of the engine connection exactly
  once (its only call on the engine), enqueues no reply, and the loop goes on.
\<close>

theorem PeerChannel_answer:
  assumes "Command (snd (UnmarshalRequest e message NoirRequest_zero)) = Some (NoirRequest_Signal signal)"
    and "req_Payload signal = Some (SignalRequest_Description d)"
    and "Unmarshal_Negotiation e d = Inr desc"
    and "Type (Desc desc) = SDPTypeAnswer"
    and "PeerChannel_body e pid roomID peer recv send (message, err) = (f, t)"
  shows "f = Continue \<and>
    filter is_remote_description t = [Peer_SetRemoteDescription peer (Desc desc)] \<and>
    filter is_engine_call t = [Peer_SetRemoteDescription peer (Desc desc)] \<and>
    filter is_reply t = []"
  using assms
  by (cases "UnmarshalRequest e message NoirRequest_zero")
     (auto simp: PeerChannel_body_def Let_def)

theorem PeerChannel_answer_witness:
  "PeerChannel_body demo_env ''peerA'' ''room1'' (Peer 1) (Queue 8) (Queue 10) (''answer'', None) =
     (Continue, [Queue_BlockUntilNext (Queue 8), Log Debugf ''got answer, setting description'',
        Peer_SetRemoteDescription (Peer 1) \<lparr>Type = SDPTypeAnswer, SDP = ''v=0 answer''\<rparr>]) \<and>
   filter is_remote_description
     [Queue_BlockUntilNext (Queue 8), Log Debugf ''got answer, setting description'',
      Peer_SetRemoteDescription (Peer 1) \<lparr>Type = SDPTypeAnswer, SDP = ''v=0 answer''\<rparr>]
     = [Peer_SetRemoteDescription (Peer 1) \<lparr>Type = SDPTypeAnswer, SDP = ''v=0 answer''\<rparr>] \<and>
   filter is_reply
     [Queue_BlockUntilNext (Queue 8), Log Debugf ''got answer, setting description'',
      Peer_SetRemoteDescription (Peer 1) \<lparr>Type = SDPTypeAnswer, SDP = ''v=0 answer''\<rparr>] = []"
proof -
  let ?answer = "\<lparr>Desc = \<lparr>Type = SDPTypeAnswer, SDP = ''v=0 answer''\<rparr>\<rparr>"
  have u: "Command (snd (UnmarshalRequest demo_env ''answer'' NoirRequest_zero))
      = Some (NoirRequest_Signal (demo_signal (Some (SignalRequest_Description ''answer''))))"
    by (simp add: demo_simps)
  have p: "req_Payload (demo_signal (Some (SignalRequest_Description ''answer'')))
      = Some (SignalRequest_Description ''answer'')"
    by (simp add: demo_simps)
  have n: "Unmarshal_Negotiation demo_env ''answer'' = Inr ?answer"
    by (simp add: demo_simps)
  have ty: "Type (Desc ?answer) = SDPTypeAnswer"
    by simp
  have b: "PeerChannel_body demo_env ''peerA'' ''room1'' (Peer 1) (Queue 8) (Queue 10) (''answer'', None) =
     (Continue, [Queue_BlockUntilNext (Queue 8), Log Debugf ''got answer, setting description'',
        Peer_SetRemoteDescription (Peer 1) \<lparr>Type = SDPTypeAnswer, SDP = ''v=0 answer''\<rparr>])"
    by (simp add: PeerChannel_body_def demo_simps log_if_def)
  show ?thesis
    using b PeerChannel_answer [OF u p n ty b] by simp
qed

text \<open>
  C9. A pass of the Peer Channel on a Description payload whose decoded type is neither
  answer nor offer does nothing with it: no call on the engine connection, no reply, and the
  loop goes on. The events of the pass are the pop and the error lines of the pop and of the
  request decoding, if these reported errors; the type switch adds no event and no log line.
\<close>

theorem PeerChannel_other_description:
  assumes "UnmarshalRequest e message NoirRequest_zero = (uerr, request)"
    and "Command request = Some (NoirRequest_Signal signal)"
    and "req_Payload signal = Some (SignalRequest_Description d)"
    and "Unmarshal_Negotiation e d = Inr desc"
    and "Type (Desc desc) \<noteq> SDPTypeAnswer"
    and "Type (Desc desc) \<noteq> SDPTypeOffer"
    and "PeerChannel_body e pid roomID peer recv send (message, err) = (f, t)"
  shows "f = Continue \<and> filter is_engine_call t = [] \<and> filter is_reply t = [] \<and>
    t = Queue_BlockUntilNext recv
          # log_if err Errorf ''getting message to peer %s''
          @ log_if uerr Errorf ''unmarshal message to peer %s'' \<and>
    filter is_log t = log_if err Errorf ''getting message to peer %s''
          @ log_if uerr Errorf ''unmarshal message to peer %s''"
  using assms
  by (auto simp: PeerChannel_body_def Let_def log_if_def)

theorem PeerChannel_other_description_witness:
  "Unmarshal_Negotiation demo_env ''pranswer''
     = Inr \<lparr>Desc = \<lparr>Type = SDPTypePranswer, SDP = ''v=0 pranswer''\<rparr>\<rparr> \<and>
   PeerChannel_body demo_env ''peerA'' ''room1'' (Peer 1) (Queue 8) (Queue 10) (''pranswer'', None) =
     (Continue, [Queue_BlockUntilNext (Queue 8)]) \<and>
   filter is_log [Queue_BlockUntilNext (Queue 8)] = []"
proof -
  let ?pranswer = "\<lparr>Desc = \<lparr>Type = SDPTypePranswer, SDP = ''v=0 pranswer''\<rparr>\<rparr>"
  have u: "UnmarshalRequest demo_env ''pranswer'' NoirRequest_zero
      = (None, demo_request (Some (SignalRequest_Description ''pranswer'')))"
    by (simp add: demo_simps)
  have c: "Command (demo_request (Some (SignalRequest_Description ''pranswer'')))
      = Some (NoirRequest_Signal (demo_signal (Some (SignalRequest_Description ''pranswer''))))"
    by (simp add: demo_simps)
  have p: "req_Payload (demo_signal (Some (SignalRequest_Description ''pranswer'')))
      = Some (SignalRequest_Description ''pranswer'')"
    by (simp add: demo_simps)
  have n: "Unmarshal_Negotiation demo_env ''pranswer'' = Inr ?pranswer"
    by (simp add: demo_simps)
  have ty: "Type (Desc ?pranswer) \<noteq> SDPTypeAnswer" "Type (Desc ?pranswer) \<noteq> SDPTypeOffer"
    by simp_all
  have b: "PeerChannel_body demo_env ''peerA'' ''room1'' (Peer 1) (Queue 8) (Queue 10) (''pranswer'', None) =
     (Continue, [Queue_BlockUntilNext (Queue 8)])"
    by (simp add: PeerChannel_body_def demo_simps log_if_def)
  show ?thesis
    using n b PeerChannel_other_description [OF u c p n ty b] by simp
qed

end
